theory Spec2Isabelle
  imports Main "HOL-Library.Word"
begin

unbundle bit_operations_syntax

section \<open>Data model of clutter-actor.c\<close>

text \<open>
  The C integer types of the source.  \<open>gint\<close>, \<open>ClutterFixed\<close> and \<open>ClutterUnit\<close>
  are 32-bit two's complement values, \<open>guint8\<close> is a byte.  Arithmetic on words
  wraps around; signed readings go through \<open>sint\<close>.
\<close>

type_synonym gint = "32 word"
type_synonym guint = "32 word"
type_synonym guint32 = "32 word"
type_synonym guint8 = "8 word"
type_synonym ClutterFixed = "32 word"
type_synonym ClutterUnit = "32 word"

text \<open>Actors live in a store and are referred to by address; \<open>NULL\<close> is \<open>None\<close>.\<close>

type_synonym aref = nat

record ClutterActorBox =
  x1 :: ClutterUnit
  y1 :: ClutterUnit
  x2 :: ClutterUnit
  y2 :: ClutterUnit

text \<open>\<open>ClutterGeometry\<close> has the fields x, y, width, height; they carry a prefix here.\<close>

record ClutterGeometry =
  geom_x :: gint
  geom_y :: gint
  geom_width :: guint
  geom_height :: guint

text \<open>
  \<open>struct _ClutterActorPrivate\<close> together with the public flags
  (\<open>CLUTTER_ACTOR_MAPPED\<close>, \<open>CLUTTER_ACTOR_REALIZED\<close>, \<open>CLUTTER_ACTOR_REACTIVE\<close>)
  and the private flags (\<open>CLUTTER_ACTOR_IN_DESTRUCTION\<close>, \<open>CLUTTER_ACTOR_IS_TOPLEVEL\<close>,
  \<open>CLUTTER_ACTOR_IN_REPARENT\<close>) of the instance.  The fields \<open>z\<close>, \<open>id\<close> and
  \<open>name\<close> of the source are \<open>priv_z\<close>, \<open>priv_id\<close> and \<open>priv_name\<close>.
\<close>

record ClutterActor =
  coords :: ClutterActorBox
  clip :: ClutterGeometry
  has_clip :: bool
  rxang :: ClutterFixed
  ryang :: ClutterFixed
  rzang :: ClutterFixed
  rzx :: gint
  rzy :: gint
  rxy :: gint
  rxz :: gint
  ryx :: gint
  ryz :: gint
  priv_z :: gint
  opacity :: guint8
  parent_actor :: "aref option"
  priv_name :: "string option"
  scale_x :: ClutterFixed
  scale_y :: ClutterFixed
  priv_id :: guint32
  anchor_x :: ClutterUnit
  anchor_y :: ClutterUnit
  flag_mapped :: bool
  flag_realized :: bool
  flag_reactive :: bool
  pflag_in_destruction :: bool
  pflag_is_toplevel :: bool
  pflag_in_reparent :: bool
  is_container :: bool

type_synonym actor_store = "aref \<Rightarrow> ClutterActor"

text \<open>
  The fixed-point and unit macros come from clutter-fixed.h and clutter-units.h, which
  are not part of the sources at hand.  The functions below take them as a parameter.
  \<open>CFX_DIV\<close> is an integer division of C, which does not return on every pair of
  operands: the parameter gives \<open>None\<close> where the division traps.
\<close>

record fixed_macros =
  CFX_ONE :: ClutterFixed
  CFX_QMUL :: "ClutterFixed \<Rightarrow> ClutterFixed \<Rightarrow> ClutterFixed"
  CFX_MUL :: "ClutterFixed \<Rightarrow> ClutterFixed \<Rightarrow> ClutterFixed"
  CFX_DIV :: "ClutterFixed \<Rightarrow> ClutterFixed \<Rightarrow> ClutterFixed option"
  CLUTTER_UNITS_TO_INT :: "ClutterUnit \<Rightarrow> gint"
  CLUTTER_UNITS_FROM_INT :: "gint \<Rightarrow> ClutterUnit"
  CLUTTER_UNITS_FROM_DEVICE :: "gint \<Rightarrow> ClutterUnit"

definition CLUTTER_ACTOR_IS_VISIBLE :: "ClutterActor \<Rightarrow> bool" where
  "CLUTTER_ACTOR_IS_VISIBLE a = (flag_realized a \<and> flag_mapped a)"

definition clutter_actor_get_parent :: "actor_store \<Rightarrow> aref \<Rightarrow> aref option" where
  "clutter_actor_get_parent h self = parent_actor (h self)"

section \<open>The per-actor modelview transform\<close>

text \<open>
  The renderer (cogl) is external.  Its state is the sequence of calls it has received;
  every call of the source appends one entry.
\<close>

datatype cogl_call =
  cogl_push_matrix
| cogl_pop_matrix
| cogl_translate gint gint gint
| cogl_scale ClutterFixed ClutterFixed
| cogl_rotatex ClutterFixed gint gint gint
| cogl_clip_set ClutterGeometry
| cogl_clip_unset

type_synonym cogl_state = "cogl_call list"

definition cogl :: "cogl_call \<Rightarrow> cogl_state \<Rightarrow> cogl_state" where
  "cogl c gl = gl @ [c]"

text \<open>
  \<open>_clutter_actor_apply_modelview_transform\<close>, statement by statement (the name
  loses its leading underscore).
\<close>

definition clutter_actor_apply_modelview_transform ::
  "fixed_macros \<Rightarrow> actor_store \<Rightarrow> aref \<Rightarrow> cogl_state \<Rightarrow> cogl_state" where
  "clutter_actor_apply_modelview_transform fx h self gl0 =
    (let priv = h self;
         parent = clutter_actor_get_parent h self;
         gl1 = (if parent \<noteq> None
                then cogl (cogl_translate (CLUTTER_UNITS_TO_INT fx (x1 (coords priv)))
                                          (CLUTTER_UNITS_TO_INT fx (y1 (coords priv))) 0) gl0
                else gl0);
         gl2 = (if scale_x priv \<noteq> CFX_ONE fx \<or> scale_y priv \<noteq> CFX_ONE fx
                then cogl (cogl_scale (scale_x priv) (scale_y priv)) gl1
                else gl1);
         gl3 = (if parent \<noteq> None \<and> (anchor_x priv \<noteq> 0 \<or> anchor_y priv \<noteq> 0)
                then cogl (cogl_translate (CLUTTER_UNITS_TO_INT fx (- anchor_x priv))
                                          (CLUTTER_UNITS_TO_INT fx (- anchor_y priv)) 0) gl2
                else gl2);
         gl4 = (if rzang priv \<noteq> 0
                then (let a = cogl (cogl_translate (rzx priv) (rzy priv) 0) gl3;
                          b = cogl (cogl_rotatex (rzang priv) 0 0 (CFX_ONE fx)) a
                      in cogl (cogl_translate (- rzx priv) (- rzy priv) 0) b)
                else gl3);
         gl5 = (if ryang priv \<noteq> 0
                then (let a = cogl (cogl_translate (ryx priv) 0 (priv_z priv + ryz priv)) gl4;
                          b = cogl (cogl_rotatex (ryang priv) 0 (CFX_ONE fx) 0) a
                      in cogl (cogl_translate (- ryx priv) 0 (- (priv_z priv + ryz priv))) b)
                else gl4);
         gl6 = (if rxang priv \<noteq> 0
                then (let a = cogl (cogl_translate 0 (rxy priv) (priv_z priv + rxz priv)) gl5;
                          b = cogl (cogl_rotatex (rxang priv) (CFX_ONE fx) 0 0) a
                      in cogl (cogl_translate 0 (- rxy priv) (- (priv_z priv + rxz priv))) b)
                else gl5);
         gl7 = (if priv_z priv \<noteq> 0 then cogl (cogl_translate 0 0 (priv_z priv)) gl6 else gl6)
     in if has_clip priv then cogl (cogl_clip_set (clip priv)) gl7 else gl7)"

text \<open>
  The sequence of calls in the words of the documentation, where the scale is a step
  like the others and is always made.  It is here to be compared with the function
  above.
\<close>

definition composer_calls_unguarded_scale ::
  "fixed_macros \<Rightarrow> actor_store \<Rightarrow> aref \<Rightarrow> cogl_call list" where
  "composer_calls_unguarded_scale fx h self =
     (if parent_actor (h self) \<noteq> None
      then [cogl_translate (CLUTTER_UNITS_TO_INT fx (x1 (coords (h self))))
                           (CLUTTER_UNITS_TO_INT fx (y1 (coords (h self)))) 0]
      else []) @
     [cogl_scale (scale_x (h self)) (scale_y (h self))] @
     (if parent_actor (h self) \<noteq> None \<and> (anchor_x (h self) \<noteq> 0 \<or> anchor_y (h self) \<noteq> 0)
      then [cogl_translate (CLUTTER_UNITS_TO_INT fx (- anchor_x (h self)))
                           (CLUTTER_UNITS_TO_INT fx (- anchor_y (h self))) 0]
      else []) @
     (if rzang (h self) \<noteq> 0
      then [cogl_translate (rzx (h self)) (rzy (h self)) 0,
            cogl_rotatex (rzang (h self)) 0 0 (CFX_ONE fx),
            cogl_translate (- rzx (h self)) (- rzy (h self)) 0]
      else []) @
     (if ryang (h self) \<noteq> 0
      then [cogl_translate (ryx (h self)) 0 (priv_z (h self) + ryz (h self)),
            cogl_rotatex (ryang (h self)) 0 (CFX_ONE fx) 0,
            cogl_translate (- ryx (h self)) 0 (- (priv_z (h self) + ryz (h self)))]
      else []) @
     (if rxang (h self) \<noteq> 0
      then [cogl_translate 0 (rxy (h self)) (priv_z (h self) + rxz (h self)),
            cogl_rotatex (rxang (h self)) (CFX_ONE fx) 0 0,
            cogl_translate 0 (- rxy (h self)) (- (priv_z (h self) + rxz (h self)))]
      else []) @
     (if priv_z (h self) \<noteq> 0 then [cogl_translate 0 0 (priv_z (h self))] else []) @
     (if has_clip (h self) then [cogl_clip_set (clip (h self))] else [])"

text \<open>A renderer gives every call an effect on its own state; calls take effect in order.\<close>

definition run_calls :: "(cogl_call \<Rightarrow> 'm \<Rightarrow> 'm) \<Rightarrow> cogl_call list \<Rightarrow> 'm \<Rightarrow> 'm" where
  "run_calls effect cs m = foldl (\<lambda>s c. effect c s) m cs"

section \<open>The recursive accumulator\<close>

text \<open>
  \<open>_clutter_actor_apply_modelview_transform_recursive\<close> follows the parent links;
  on a cyclic store the C function does not return, which is the value \<open>None\<close>.
\<close>

partial_function (option) clutter_actor_apply_modelview_transform_recursive ::
  "fixed_macros \<Rightarrow> actor_store \<Rightarrow> aref \<Rightarrow> cogl_state \<Rightarrow> cogl_state option" where
  "clutter_actor_apply_modelview_transform_recursive fx h self gl =
     (case clutter_actor_get_parent h self of
        None \<Rightarrow> Some (clutter_actor_apply_modelview_transform fx h self gl)
      | Some parent \<Rightarrow>
          Option.bind (clutter_actor_apply_modelview_transform_recursive fx h parent gl)
            (\<lambda>gl'. Some (clutter_actor_apply_modelview_transform fx h self gl')))"

declare clutter_actor_apply_modelview_transform_recursive.simps [code]

text \<open>
  \<open>ancestry h a up\<close>: the list \<open>up\<close> is the chain of parent links from \<open>a\<close>
  to a root, \<open>a\<close> first and the root last.
\<close>

fun ancestry :: "actor_store \<Rightarrow> aref \<Rightarrow> aref list \<Rightarrow> bool" where
  "ancestry h a [] = False"
| "ancestry h a [r] = (a = r \<and> parent_actor (h a) = None)"
| "ancestry h a (n # p # ps) = (a = n \<and> parent_actor (h a) = Some p \<and> ancestry h p (p # ps))"

section \<open>Vertex transformation\<close>


















section \<open>Opacity\<close>

text \<open>
  \<open>clutter_actor_get_opacity\<close>.  The source calls itself on the parent twice; the
  call has no effect on the store, so both calls give the same value.  The product is
  computed in \<open>int\<close> and the quotient converted to \<open>guint8\<close> on return.
\<close>

partial_function (option) clutter_actor_get_opacity ::
  "actor_store \<Rightarrow> aref \<Rightarrow> guint8 option" where
  "clutter_actor_get_opacity h self =
     (case parent_actor (h self) of
        None \<Rightarrow> Some (opacity (h self))
      | Some parent \<Rightarrow>
          Option.bind (clutter_actor_get_opacity h parent)
            (\<lambda>po. if po \<noteq> 0xff
                  then Some (of_nat ((unat po * unat (opacity (h self))) div 0xff))
                  else Some (opacity (h self))))"

declare clutter_actor_get_opacity.simps [code]

text \<open>
  The multiplicative chain in words: the root counts with its own opacity, every
  further level multiplies the effective opacity of its parent with its own value and
  divides by 255.  The list runs from the actor up to the root.
\<close>

fun opacity_chain :: "nat list \<Rightarrow> nat" where
  "opacity_chain [] = 255"
| "opacity_chain [own] = own"
| "opacity_chain (own # more_up) = (opacity_chain more_up * own) div 255"

section \<open>Pick colours\<close>

record ClutterColor =
  red :: guint8
  green :: guint8
  blue :: guint8
  alpha :: guint8

text \<open>
  The block of \<open>clutter_actor_paint\<close> that encodes the actor id into a colour.
  \<open>r\<close>, \<open>g\<close>, \<open>b\<close> are the bit counts \<open>cogl_get_bitmasks\<close> reports.  The
  expressions are evaluated in 32 bits and stored into the \<open>guint8\<close> channels.  A
  shift by a negative amount or by 32 and more is undefined in C: the result is \<open>None\<close>.
\<close>

definition pick_color :: "nat \<Rightarrow> nat \<Rightarrow> nat \<Rightarrow> guint32 \<Rightarrow> ClutterColor option" where
  "pick_color r g b ident =
    (if 8 < r \<or> 8 < g \<or> 8 < b \<or> 32 \<le> g + b then None
     else Some
       \<lparr>red = ucast (push_bit (8 - r) (drop_bit (g + b) ident AND drop_bit (8 - r) (0xff :: 32 word))),
        green = ucast (push_bit (8 - g) (drop_bit b ident AND drop_bit (8 - g) (0xff :: 32 word))),
        blue = ucast (push_bit (8 - b) (ident AND drop_bit (8 - b) (0xff :: 32 word))),
        alpha = 0xff\<rparr>)"

text \<open>
  Modelled from the spec: the decoder belongs to the stage code that reads the pixel
  back, which is not among the sources.  The spec asks that it inverts the encoding
  under the same bit depths: every channel is shifted back down and the three fields
  are put side by side, red above green above blue.
\<close>

definition pick_color_decode :: "nat \<Rightarrow> nat \<Rightarrow> nat \<Rightarrow> ClutterColor \<Rightarrow> guint32" where
  "pick_color_decode r g b col =
     push_bit (g + b) (ucast (drop_bit (8 - r) (red col))) OR
     push_bit b (ucast (drop_bit (8 - g) (green col))) OR
     ucast (drop_bit (8 - b) (blue col))"

section \<open>Event delivery\<close>

text \<open>
  The event types named in the \<open>switch\<close> of \<open>clutter_actor_event\<close>; any other value
  of the enumeration takes the \<open>default\<close> branch.
\<close>

datatype ClutterEventType =
  CLUTTER_NOTHING
| CLUTTER_BUTTON_PRESS
| CLUTTER_BUTTON_RELEASE
| CLUTTER_SCROLL
| CLUTTER_KEY_PRESS
| CLUTTER_KEY_RELEASE
| CLUTTER_MOTION
| CLUTTER_ENTER
| CLUTTER_LEAVE
| CLUTTER_DELETE
| CLUTTER_DESTROY_NOTIFY
| CLUTTER_CLIENT_MESSAGE
| CLUTTER_OTHER_TYPE gint

text \<open>The signal enumeration of the source, without \<open>LAST_SIGNAL\<close>.\<close>

datatype actor_signal =
  SHOW
| HIDE
| DESTROY
| PARENT_SET
| FOCUS_IN
| FOCUS_OUT
| EVENT
| CAPTURED_EVENT
| BUTTON_PRESS_EVENT
| BUTTON_RELEASE_EVENT
| SCROLL_EVENT
| KEY_PRESS_EVENT
| KEY_RELEASE_EVENT
| MOTION_EVENT
| ENTER_EVENT
| LEAVE_EVENT

text \<open>The \<open>switch\<close>: \<open>signal_num\<close> is \<open>-1\<close> (here \<open>None\<close>) or a signal.\<close>

fun event_signal_num :: "ClutterEventType \<Rightarrow> actor_signal option" where
  "event_signal_num CLUTTER_NOTHING = None"
| "event_signal_num CLUTTER_BUTTON_PRESS = Some BUTTON_PRESS_EVENT"
| "event_signal_num CLUTTER_BUTTON_RELEASE = Some BUTTON_RELEASE_EVENT"
| "event_signal_num CLUTTER_SCROLL = Some SCROLL_EVENT"
| "event_signal_num CLUTTER_KEY_PRESS = Some KEY_PRESS_EVENT"
| "event_signal_num CLUTTER_KEY_RELEASE = Some KEY_RELEASE_EVENT"
| "event_signal_num CLUTTER_MOTION = Some MOTION_EVENT"
| "event_signal_num CLUTTER_ENTER = Some ENTER_EVENT"
| "event_signal_num CLUTTER_LEAVE = Some LEAVE_EVENT"
| "event_signal_num CLUTTER_DELETE = None"
| "event_signal_num CLUTTER_DESTROY_NOTIFY = None"
| "event_signal_num CLUTTER_CLIENT_MESSAGE = None"
| "event_signal_num (CLUTTER_OTHER_TYPE t) = None"

text \<open>
  Signal handlers are user code.  \<open>handlers actor sig type u\<close> runs the handlers
  connected to \<open>sig\<close> in the user state \<open>u\<close>; it gives the accumulated boolean, or
  \<open>None\<close> when nothing is connected, and the new user state.  \<open>g_signal_emit\<close> writes
  the boolean to \<open>retval\<close> and leaves \<open>retval\<close> alone when nothing ran.  The state of
  an emission is the user state with the list of emissions made so far.
\<close>

type_synonym 'u handlers =
  "aref \<Rightarrow> actor_signal \<Rightarrow> ClutterEventType \<Rightarrow> 'u \<Rightarrow> bool option \<times> 'u"

definition g_signal_emit_event ::
  "'u handlers \<Rightarrow> aref \<Rightarrow> actor_signal \<Rightarrow> ClutterEventType \<Rightarrow>
   bool \<times> 'u \<times> (aref \<times> actor_signal) list \<Rightarrow> bool \<times> 'u \<times> (aref \<times> actor_signal) list" where
  "g_signal_emit_event hs actor sig ty st =
    (case st of (retval, u, emitted) \<Rightarrow>
      (case hs actor sig ty u of
         (None, u') \<Rightarrow> (retval, u', emitted @ [(actor, sig)])
       | (Some r, u') \<Rightarrow> (r, u', emitted @ [(actor, sig)])))"

definition clutter_actor_event ::
  "'u handlers \<Rightarrow> aref \<Rightarrow> ClutterEventType \<Rightarrow> bool \<Rightarrow> 'u \<Rightarrow>
   bool \<times> 'u \<times> (aref \<times> actor_signal) list" where
  "clutter_actor_event hs actor event_type capture u =
    (let st0 = (False, u, []) in
     if capture then g_signal_emit_event hs actor CAPTURED_EVENT event_type st0
     else
       (let st1 = g_signal_emit_event hs actor EVENT event_type st0 in
        if \<not> fst st1 then
          (case event_signal_num event_type of
             None \<Rightarrow> st1
           | Some signal_num \<Rightarrow> g_signal_emit_event hs actor signal_num event_type st1)
        else st1))"

text \<open>
  What an emission leaves in a \<open>retval\<close> that held \<open>FALSE\<close>: the boolean of the
  handlers, or \<open>FALSE\<close> still when nothing is connected.
\<close>

definition handled ::
  "'u handlers \<Rightarrow> aref \<Rightarrow> actor_signal \<Rightarrow> ClutterEventType \<Rightarrow> 'u \<Rightarrow> bool" where
  "handled hs actor sig ty u = (case fst (hs actor sig ty u) of None \<Rightarrow> False | Some r \<Rightarrow> r)"

text \<open>Handlers for the scene: nobody takes the general signal, and a button press
  is taken by its own signal.  The user state counts the emissions.\<close>

definition scene_handlers :: "nat handlers" where
  "scene_handlers actor sig ty u =
     (if sig = EVENT then Some False
      else if sig = BUTTON_PRESS_EVENT then Some True
      else None, Suc u)"

section \<open>Actors in their context\<close>

text \<open>
  The state the setters work on: the actors, the table \<open>actor_hash\<close> and the token
  \<open>update_idle\<close> of the main context, and what the surrounding libraries have been
  told.  The main loop keeps the idle sources that are registered; a source id is
  never 0.  Property notifications, emissions of the signals without a return value,
  diagnostics (\<open>g_warning\<close> and failed \<open>g_return_if_fail\<close> checks) and requests to
  re-sort a container are recorded in the order they are made.
\<close>

record world =
  actors :: actor_store
  actor_hash :: "guint32 \<rightharpoonup> aref"
  update_idle :: nat
  idle_sources :: "nat list"
  source_counter :: nat
  repaints :: nat
  notifications :: "(aref \<times> string) list"
  emissions :: "(aref \<times> actor_signal) list"
  diagnostics :: "string list"
  depth_sorts :: "aref list"

definition priv_update :: "aref \<Rightarrow> (ClutterActor \<Rightarrow> ClutterActor) \<Rightarrow> world \<Rightarrow> world" where
  "priv_update self f w = w\<lparr>actors := (actors w)(self := f (actors w self))\<rparr>"

definition g_object_notify :: "aref \<Rightarrow> string \<Rightarrow> world \<Rightarrow> world" where
  "g_object_notify self prop w = w\<lparr>notifications := notifications w @ [(self, prop)]\<rparr>"

definition g_signal_emit :: "aref \<Rightarrow> actor_signal \<Rightarrow> world \<Rightarrow> world" where
  "g_signal_emit self sig w = w\<lparr>emissions := emissions w @ [(self, sig)]\<rparr>"

definition g_warning :: "string \<Rightarrow> world \<Rightarrow> world" where
  "g_warning msg w = w\<lparr>diagnostics := diagnostics w @ [msg]\<rparr>"

text \<open>
  Modelled from the spec: \<open>clutter_container_sort_depth_order\<close> belongs to
  clutter-container.c, which is not among the sources.  The container is asked to
  re-sort its children whenever the depth of a parented actor changes; the request is
  recorded.
\<close>

definition clutter_container_sort_depth_order :: "aref \<Rightarrow> world \<Rightarrow> world" where
  "clutter_container_sort_depth_order parent w = w\<lparr>depth_sorts := depth_sorts w @ [parent]\<rparr>"

subsection \<open>Redraw scheduling\<close>

text \<open>
  Modelled from the spec: \<open>clutter_threads_add_idle_full\<close> belongs to clutter-main.c,
  which is not among the sources.  The scheduler registers an idle callback with the
  main loop; the call returns the id of the new source, which is not 0.
\<close>

definition clutter_threads_add_idle_full :: "world \<Rightarrow> nat \<times> world" where
  "clutter_threads_add_idle_full w =
    (let ident = Suc (source_counter w)
     in (ident, w\<lparr>idle_sources := idle_sources w @ [ident], source_counter := ident\<rparr>))"

text \<open>\<open>g_source_remove\<close> of GLib takes the source off the main loop.\<close>

definition g_source_remove :: "nat \<Rightarrow> world \<Rightarrow> world" where
  "g_source_remove ident w = w\<lparr>idle_sources := removeAll ident (idle_sources w)\<rparr>"

text \<open>
  Modelled from the spec: \<open>clutter_redraw\<close> belongs to clutter-main.c, which is not
  among the sources.  It is the scheduled repaint of the stage; the repaints are
  counted.
\<close>

definition clutter_redraw :: "world \<Rightarrow> world" where
  "clutter_redraw w = w\<lparr>repaints := Suc (repaints w)\<rparr>"

definition clutter_actor_queue_redraw :: "aref \<Rightarrow> world \<Rightarrow> world" where
  "clutter_actor_queue_redraw self w =
    (if update_idle w = 0
     then (case clutter_threads_add_idle_full w of (ident, w') \<Rightarrow> w'\<lparr>update_idle := ident\<rparr>)
     else w)"

text \<open>\<open>redraw_update_idle\<close>; its return value is always \<open>FALSE\<close>.\<close>

definition redraw_update_idle :: "world \<Rightarrow> world" where
  "redraw_update_idle w =
    clutter_redraw
      (if update_idle w \<noteq> 0
       then (g_source_remove (update_idle w) w)\<lparr>update_idle := 0\<rparr>
       else w)"

text \<open>
  The main loop runs a registered idle source: it calls the callback, and as the
  callback returns \<open>FALSE\<close> the source is dropped.
\<close>

definition main_loop_idle :: "nat \<Rightarrow> world \<Rightarrow> world" where
  "main_loop_idle ident w =
    (if ident \<in> set (idle_sources w) then g_source_remove ident (redraw_update_idle w) else w)"

subsection \<open>Geometry\<close>

definition clutter_actor_real_request_coords :: "aref \<Rightarrow> ClutterActorBox \<Rightarrow> world \<Rightarrow> world" where
  "clutter_actor_real_request_coords self box w = priv_update self (\<lambda>a. a\<lparr>coords := box\<rparr>) w"

text \<open>\<open>clutter_actor_request_coords\<close>, with the class method of the base class.\<close>

definition clutter_actor_request_coords :: "aref \<Rightarrow> ClutterActorBox \<Rightarrow> world \<Rightarrow> world" where
  "clutter_actor_request_coords self box w =
    (let priv = actors w self;
         x_change = (x1 (coords priv) \<noteq> x1 box);
         y_change = (y1 (coords priv) \<noteq> y1 box);
         width_change = (x2 (coords priv) - x1 (coords priv) \<noteq> x2 box - x1 box);
         height_change = (y2 (coords priv) - y1 (coords priv) \<noteq> y2 box - y1 box)
     in if x_change \<or> y_change \<or> width_change \<or> height_change
        then
          (let w1 = clutter_actor_real_request_coords self box w;
               w2 = (if CLUTTER_ACTOR_IS_VISIBLE (actors w1 self)
                     then clutter_actor_queue_redraw self w1 else w1);
               w3 = (if x_change then g_object_notify self ''x'' w2 else w2);
               w4 = (if y_change then g_object_notify self ''y'' w3 else w3);
               w5 = (if width_change then g_object_notify self ''width'' w4 else w4)
           in if height_change then g_object_notify self ''height'' w5 else w5)
        else w)"

text \<open>\<open>clutter_actor_query_coords\<close>; the base class has no \<open>query_coords\<close> method.\<close>

definition clutter_actor_query_coords :: "aref \<Rightarrow> world \<Rightarrow> ClutterActorBox" where
  "clutter_actor_query_coords self w =
    \<lparr>x1 = x1 (coords (actors w self)), y1 = y1 (coords (actors w self)),
     x2 = x2 (coords (actors w self)), y2 = y2 (coords (actors w self))\<rparr>"


definition clutter_actor_set_position :: "fixed_macros \<Rightarrow> aref \<Rightarrow> gint \<Rightarrow> gint \<Rightarrow> world \<Rightarrow> world" where
  "clutter_actor_set_position fx self x y w =
    (let box = clutter_actor_query_coords self w;
         box1 = box\<lparr>x2 := x2 box + (CLUTTER_UNITS_FROM_INT fx x - x1 box)\<rparr>;
         box2 = box1\<lparr>y2 := y2 box1 + (CLUTTER_UNITS_FROM_INT fx y - y1 box1)\<rparr>;
         box3 = box2\<lparr>x1 := CLUTTER_UNITS_FROM_INT fx x\<rparr>;
         box4 = box3\<lparr>y1 := CLUTTER_UNITS_FROM_INT fx y\<rparr>
     in clutter_actor_request_coords self box4 w)"






definition clutter_actor_get_y :: "fixed_macros \<Rightarrow> aref \<Rightarrow> world \<Rightarrow> gint" where
  "clutter_actor_get_y fx self w =
    (let box = clutter_actor_query_coords self w in CLUTTER_UNITS_TO_INT fx (y1 box))"

definition clutter_actor_set_x :: "fixed_macros \<Rightarrow> aref \<Rightarrow> gint \<Rightarrow> world \<Rightarrow> world" where
  "clutter_actor_set_x fx self x w =
     clutter_actor_set_position fx self x (clutter_actor_get_y fx self w) w"



subsection \<open>Scale, opacity, depth, rotation, clip, anchor point\<close>

definition clutter_actor_set_scalex :: "aref \<Rightarrow> ClutterFixed \<Rightarrow> ClutterFixed \<Rightarrow> world \<Rightarrow> world" where
  "clutter_actor_set_scalex self sx sy w =
    (let w1 = priv_update self (\<lambda>a. a\<lparr>scale_x := sx\<rparr>) w;
         w2 = g_object_notify self ''scale-x'' w1;
         w3 = priv_update self (\<lambda>a. a\<lparr>scale_y := sy\<rparr>) w2;
         w4 = g_object_notify self ''scale-y'' w3
     in if CLUTTER_ACTOR_IS_VISIBLE (actors w4 self) then clutter_actor_queue_redraw self w4 else w4)"

definition clutter_actor_set_opacity :: "aref \<Rightarrow> guint8 \<Rightarrow> world \<Rightarrow> world" where
  "clutter_actor_set_opacity self v w =
    (let w1 = priv_update self (\<lambda>a. a\<lparr>opacity := v\<rparr>) w
     in if CLUTTER_ACTOR_IS_VISIBLE (actors w1 self) then clutter_actor_queue_redraw self w1 else w1)"

definition clutter_actor_set_depth :: "aref \<Rightarrow> gint \<Rightarrow> world \<Rightarrow> world" where
  "clutter_actor_set_depth self depth w =
    (if priv_z (actors w self) \<noteq> depth
     then
       (let w1 = priv_update self (\<lambda>a. a\<lparr>priv_z := depth\<rparr>) w;
            w2 = (case parent_actor (actors w1 self) of
                    None \<Rightarrow> w1
                  | Some parent \<Rightarrow>
                      if is_container (actors w1 parent)
                      then clutter_container_sort_depth_order parent w1 else w1);
            w3 = (if CLUTTER_ACTOR_IS_VISIBLE (actors w2 self)
                  then clutter_actor_queue_redraw self w2 else w2)
        in g_object_notify self ''depth'' w3)
     else w)"

datatype ClutterRotateAxis = CLUTTER_X_AXIS | CLUTTER_Y_AXIS | CLUTTER_Z_AXIS

definition clutter_actor_set_rotationx ::
  "aref \<Rightarrow> ClutterRotateAxis \<Rightarrow> ClutterFixed \<Rightarrow> gint \<Rightarrow> gint \<Rightarrow> gint \<Rightarrow> world \<Rightarrow> world" where
  "clutter_actor_set_rotationx self axis angle x y z w =
    (let w1 = (case axis of
                 CLUTTER_X_AXIS \<Rightarrow> priv_update self (\<lambda>a. a\<lparr>rxang := angle, rxy := y, rxz := z\<rparr>) w
               | CLUTTER_Y_AXIS \<Rightarrow> priv_update self (\<lambda>a. a\<lparr>ryang := angle, ryx := x, ryz := z\<rparr>) w
               | CLUTTER_Z_AXIS \<Rightarrow> priv_update self (\<lambda>a. a\<lparr>rzang := angle, rzx := x, rzy := y\<rparr>) w)
     in if CLUTTER_ACTOR_IS_VISIBLE (actors w1 self) then clutter_actor_queue_redraw self w1 else w1)"

definition clutter_actor_set_clip :: "aref \<Rightarrow> gint \<Rightarrow> gint \<Rightarrow> gint \<Rightarrow> gint \<Rightarrow> world \<Rightarrow> world" where
  "clutter_actor_set_clip self xoff yoff width height w =
    (let w1 = priv_update self
                (\<lambda>a. a\<lparr>clip := \<lparr>geom_x = xoff, geom_y = yoff,
                                geom_width = width, geom_height = height\<rparr>,
                        has_clip := True\<rparr>) w;
         w2 = g_object_notify self ''has-clip'' w1
     in g_object_notify self ''clip'' w2)"

definition clutter_actor_set_anchor_point :: "fixed_macros \<Rightarrow> aref \<Rightarrow> gint \<Rightarrow> gint \<Rightarrow> world \<Rightarrow> world" where
  "clutter_actor_set_anchor_point fx self ax ay w =
    (let w1 = priv_update self (\<lambda>a. a\<lparr>anchor_x := CLUTTER_UNITS_FROM_DEVICE fx ax\<rparr>) w
     in priv_update self (\<lambda>a. a\<lparr>anchor_y := CLUTTER_UNITS_FROM_DEVICE fx ay\<rparr>) w1)"

definition clutter_actor_set_anchor_pointu :: "aref \<Rightarrow> ClutterUnit \<Rightarrow> ClutterUnit \<Rightarrow> world \<Rightarrow> world" where
  "clutter_actor_set_anchor_pointu self ax ay w =
    (let w1 = priv_update self (\<lambda>a. a\<lparr>anchor_x := ax\<rparr>) w
     in priv_update self (\<lambda>a. a\<lparr>anchor_y := ay\<rparr>) w1)"

subsection \<open>Parent link\<close>

text \<open>\<open>clutter_actor_realize\<close>; the base class has no \<open>realize\<close> method.\<close>

definition clutter_actor_realize :: "aref \<Rightarrow> world \<Rightarrow> world" where
  "clutter_actor_realize self w =
    (if flag_realized (actors w self) then w
     else priv_update self (\<lambda>a. a\<lparr>flag_realized := True\<rparr>) w)"

text \<open>
  \<open>clutter_actor_set_parent\<close>.  Both arguments are actors and the main context exists;
  of the \<open>g_return_if_fail\<close> checks this leaves \<open>self != parent\<close>.
\<close>

definition clutter_actor_set_parent :: "aref \<Rightarrow> aref \<Rightarrow> world \<Rightarrow> world" where
  "clutter_actor_set_parent self parent w =
    (if self = parent
     then g_warning ''clutter_actor_set_parent: assertion `self != parent' failed'' w
     else if parent_actor (actors w self) \<noteq> None
     then g_warning ''Cannot set a parent on an actor which has a parent.'' w
     else if pflag_is_toplevel (actors w self)
     then g_warning ''Cannot set a parent on a toplevel actor'' w
     else
       (let w1 = w\<lparr>actor_hash := (actor_hash w)(priv_id (actors w self) \<mapsto> self)\<rparr>;
            w2 = priv_update self (\<lambda>a. a\<lparr>parent_actor := Some parent\<rparr>) w1;
            w3 = g_signal_emit self PARENT_SET w2;
            w4 = (case parent_actor (actors w3 self) of
                    None \<Rightarrow> w3
                  | Some p \<Rightarrow> if flag_realized (actors w3 p) then clutter_actor_realize self w3 else w3)
        in case parent_actor (actors w4 self) of
             None \<Rightarrow> w4
           | Some p \<Rightarrow>
               if CLUTTER_ACTOR_IS_VISIBLE (actors w4 p) \<and> CLUTTER_ACTOR_IS_VISIBLE (actors w4 self)
               then clutter_actor_queue_redraw self w4 else w4))"

subsection \<open>Sequences of calls\<close>

text \<open>
  What can happen to a world between two frames: any of the calls above, on any
  actor, and the main loop running an idle source.
\<close>

datatype call =
  Queue_redraw aref
| Request_coords aref ClutterActorBox
| Set_scalex aref ClutterFixed ClutterFixed
| Set_opacity aref guint8
| Set_depth aref gint
| Set_rotationx aref ClutterRotateAxis ClutterFixed gint gint gint
| Set_clip aref gint gint gint gint
| Set_anchor_pointu aref ClutterUnit ClutterUnit
| Set_parent aref aref
| Main_loop_idle nat

fun perform :: "call \<Rightarrow> world \<Rightarrow> world" where
  "perform (Queue_redraw a) w = clutter_actor_queue_redraw a w"
| "perform (Request_coords a box) w = clutter_actor_request_coords a box w"
| "perform (Set_scalex a sx sy) w = clutter_actor_set_scalex a sx sy w"
| "perform (Set_opacity a v) w = clutter_actor_set_opacity a v w"
| "perform (Set_depth a d) w = clutter_actor_set_depth a d w"
| "perform (Set_rotationx a axis angle x y z) w = clutter_actor_set_rotationx a axis angle x y z w"
| "perform (Set_clip a xoff yoff wd ht) w = clutter_actor_set_clip a xoff yoff wd ht w"
| "perform (Set_anchor_pointu a ax ay) w = clutter_actor_set_anchor_pointu a ax ay w"
| "perform (Set_parent a p) w = clutter_actor_set_parent a p w"
| "perform (Main_loop_idle ident) w = main_loop_idle ident w"

definition perform_all :: "call list \<Rightarrow> world \<Rightarrow> world" where
  "perform_all cs w = foldl (\<lambda>s c. perform c s) w cs"

text \<open>
  At most one repaint callback is pending, and the token names it: with the token 0
  no idle source is registered, otherwise exactly the one the token holds.
\<close>

definition one_pending :: "world \<Rightarrow> bool" where
  "one_pending w =
     (if update_idle w = 0 then idle_sources w = [] else idle_sources w = [update_idle w])"

section \<open>A scene to run the functions on\<close>

text \<open>
  \<open>clutter_actor_init\<close>: the private structure starts zero-filled; the initialiser
  sets the parent, the clip flag, the opacity, the id and the scale, and requests the
  zero box, which the zero-filled coordinates already are.
\<close>

definition clutter_actor_init :: "fixed_macros \<Rightarrow> guint32 \<Rightarrow> ClutterActor" where
  "clutter_actor_init fx ident =
    \<lparr>coords = \<lparr>x1 = 0, y1 = 0, x2 = 0, y2 = 0\<rparr>,
     clip = \<lparr>geom_x = 0, geom_y = 0, geom_width = 0, geom_height = 0\<rparr>,
     has_clip = False,
     rxang = 0, ryang = 0, rzang = 0,
     rzx = 0, rzy = 0, rxy = 0, rxz = 0, ryx = 0, ryz = 0,
     priv_z = 0,
     opacity = 0xff,
     parent_actor = None,
     priv_name = None,
     scale_x = CFX_ONE fx, scale_y = CFX_ONE fx,
     priv_id = ident,
     anchor_x = 0, anchor_y = 0,
     flag_mapped = False, flag_realized = False, flag_reactive = False,
     pflag_in_destruction = False, pflag_is_toplevel = False, pflag_in_reparent = False,
     is_container = False\<rparr>"

text \<open>
  An instance of the macro parameter with 16 fractional bits: \<open>CFX_ONE\<close> is
  \<open>1 << 16\<close>, the precise product keeps the 64-bit intermediate, the fast product
  and quotient shift by 8 on both sides, units are fixed-point pixels.  The division
  of two 32-bit integers truncates towards zero; it traps on the divisor 0 and on the
  one quotient that does not fit, the least integer by -1.
\<close>

definition c_quotient :: "gint \<Rightarrow> gint \<Rightarrow> gint option" where
  "c_quotient a b =
     (if b = 0 \<or> (sint a = - (2 ^ 31) \<and> sint b = - 1) then None
      else Some (word_of_int
             (if (sint a < 0) = (sint b < 0) then \<bar>sint a\<bar> div \<bar>sint b\<bar>
              else - (\<bar>sint a\<bar> div \<bar>sint b\<bar>))))"

definition fixed_16_16 :: fixed_macros where
  "fixed_16_16 =
    \<lparr>CFX_ONE = 0x10000,
     CFX_QMUL = (\<lambda>a b. word_of_int ((sint a * sint b) div 2 ^ 16)),
     CFX_MUL = (\<lambda>a b. signed_drop_bit 8 a * signed_drop_bit 8 b),
     CFX_DIV = (\<lambda>a b. map_option (push_bit 8) (c_quotient (push_bit 8 a) b)),
     CLUTTER_UNITS_TO_INT = signed_drop_bit 16,
     CLUTTER_UNITS_FROM_INT = push_bit 16,
     CLUTTER_UNITS_FROM_DEVICE = push_bit 16\<rparr>"

text \<open>
  Three actors: the stage 0, a container 1 inside the stage with opacity 128 at
  pixel (5, 7), and a leaf 2 inside the container, 100 by 50 pixels at (10, 20),
  scaled by 2 horizontally and lying at depth 3.  All are shown.
\<close>

definition stage_actor :: ClutterActor where
  "stage_actor = (clutter_actor_init fixed_16_16 0)
     \<lparr>flag_mapped := True, flag_realized := True, pflag_is_toplevel := True,
      is_container := True\<rparr>"

definition group_actor :: ClutterActor where
  "group_actor = (clutter_actor_init fixed_16_16 1)
     \<lparr>coords := \<lparr>x1 = 0x50000, y1 = 0x70000, x2 = 0x50000, y2 = 0x70000\<rparr>,
      opacity := 128, parent_actor := Some 0,
      flag_mapped := True, flag_realized := True, is_container := True\<rparr>"

definition leaf_actor :: ClutterActor where
  "leaf_actor = (clutter_actor_init fixed_16_16 2)
     \<lparr>coords := \<lparr>x1 = 0xA0000, y1 = 0x140000, x2 = 0x6E0000, y2 = 0x460000\<rparr>,
      priv_z := 3, parent_actor := Some 1, scale_x := 0x20000,
      flag_mapped := True, flag_realized := True\<rparr>"

definition scene_store :: actor_store where
  "scene_store = (\<lambda>n. clutter_actor_init fixed_16_16 (of_nat n))
                   (0 := stage_actor, 1 := group_actor, 2 := leaf_actor)"

definition scene :: world where
  "scene =
    \<lparr>actors = scene_store,
     actor_hash = [1 \<mapsto> 1, 2 \<mapsto> 2],
     update_idle = 0, idle_sources = [], source_counter = 0, repaints = 0,
     notifications = [], emissions = [], diagnostics = [], depth_sorts = []\<rparr>"




text \<open>The scene with the leaf moved down by half a pixel, to (10, 20.5).\<close>

definition half_pixel_scene :: world where
  "half_pixel_scene =
     scene\<lparr>actors := scene_store
       (2 := leaf_actor\<lparr>coords := \<lparr>x1 = 0xA0000, y1 = 0x148000, x2 = 0x6E0000, y2 = 0x468000\<rparr>\<rparr>)\<rparr>"



section \<open>Facts about the scene\<close>

lemma scene_store_simps:
  "scene_store 0 = stage_actor" "scene_store 1 = group_actor" "scene_store 2 = leaf_actor"
  "scene_store (Suc 0) = group_actor"
  by (simp_all add: scene_store_def)

lemma fixed_16_16_simps:
  "CFX_ONE fixed_16_16 = 0x10000"
  "CFX_QMUL fixed_16_16 a b = word_of_int ((sint a * sint b) div 2 ^ 16)"
  "CFX_MUL fixed_16_16 a b = signed_drop_bit 8 a * signed_drop_bit 8 b"
  "CFX_DIV fixed_16_16 a b = map_option (push_bit 8) (c_quotient (push_bit 8 a) b)"
  "CLUTTER_UNITS_TO_INT fixed_16_16 = signed_drop_bit 16"
  "CLUTTER_UNITS_FROM_INT fixed_16_16 = push_bit 16"
  "CLUTTER_UNITS_FROM_DEVICE fixed_16_16 = push_bit 16"
  by (simp_all add: fixed_16_16_def)

lemma scene_simps:
  "actors scene = scene_store" "update_idle scene = 0" "idle_sources scene = []"
  "source_counter scene = 0" "repaints scene = 0" "notifications scene = []"
  "diagnostics scene = []" "emissions scene = []" "depth_sorts scene = []"
  "actor_hash scene = [1 \<mapsto> 1, 2 \<mapsto> 2]"
  by (simp_all add: scene_def)

lemma scene_visible:
  "CLUTTER_ACTOR_IS_VISIBLE stage_actor" "CLUTTER_ACTOR_IS_VISIBLE group_actor"
  "CLUTTER_ACTOR_IS_VISIBLE leaf_actor"
  by (simp_all add: CLUTTER_ACTOR_IS_VISIBLE_def stage_actor_def group_actor_def leaf_actor_def
        clutter_actor_init_def)

lemma scene_ancestry: "ancestry scene_store 2 [2, 1, 0]"
  by (simp add: scene_store_simps stage_actor_def group_actor_def leaf_actor_def
        clutter_actor_init_def)

section \<open>The order of the transform\<close>

lemma clutter_actor_apply_modelview_transform_append:
  "clutter_actor_apply_modelview_transform fx h self gl = gl @ clutter_actor_apply_modelview_transform fx h self []"
  by (simp add: clutter_actor_apply_modelview_transform_def Let_def cogl_def)

text \<open>
  C1 (as amended).  For every actor the composer appends to the calls the renderer has
  received, in this order: the translation by the box origin if the actor has a
  parent; the scale by \<open>(scale_x, scale_y)\<close> if one of the two differs from
  \<open>CFX_ONE\<close>; the translation by the negated anchor point if the actor has a parent
  and the anchor point is not zero; for a Z angle other than zero the translation to
  \<open>(rzx, rzy, 0)\<close>, the rotation about Z and the translation back; the same about Y
  with the pivot \<open>(ryx, 0, z + ryz)\<close> and about X with the pivot \<open>(0, rxy, z + rxz)\<close>;
  the translation by \<open>(0, 0, z)\<close> if the depth is not zero; and the clip if one is
  set.  Nothing else is called.
\<close>

theorem composer_call_order:
  "clutter_actor_apply_modelview_transform fx h self gl =
     gl @
     (if parent_actor (h self) \<noteq> None
      then [cogl_translate (CLUTTER_UNITS_TO_INT fx (x1 (coords (h self))))
                           (CLUTTER_UNITS_TO_INT fx (y1 (coords (h self)))) 0]
      else []) @
     (if scale_x (h self) \<noteq> CFX_ONE fx \<or> scale_y (h self) \<noteq> CFX_ONE fx
      then [cogl_scale (scale_x (h self)) (scale_y (h self))]
      else []) @
     (if parent_actor (h self) \<noteq> None \<and> (anchor_x (h self) \<noteq> 0 \<or> anchor_y (h self) \<noteq> 0)
      then [cogl_translate (CLUTTER_UNITS_TO_INT fx (- anchor_x (h self)))
                           (CLUTTER_UNITS_TO_INT fx (- anchor_y (h self))) 0]
      else []) @
     (if rzang (h self) \<noteq> 0
      then [cogl_translate (rzx (h self)) (rzy (h self)) 0,
            cogl_rotatex (rzang (h self)) 0 0 (CFX_ONE fx),
            cogl_translate (- rzx (h self)) (- rzy (h self)) 0]
      else []) @
     (if ryang (h self) \<noteq> 0
      then [cogl_translate (ryx (h self)) 0 (priv_z (h self) + ryz (h self)),
            cogl_rotatex (ryang (h self)) 0 (CFX_ONE fx) 0,
            cogl_translate (- ryx (h self)) 0 (- (priv_z (h self) + ryz (h self)))]
      else []) @
     (if rxang (h self) \<noteq> 0
      then [cogl_translate 0 (rxy (h self)) (priv_z (h self) + rxz (h self)),
            cogl_rotatex (rxang (h self)) (CFX_ONE fx) 0 0,
            cogl_translate 0 (- rxy (h self)) (- (priv_z (h self) + rxz (h self)))]
      else []) @
     (if priv_z (h self) \<noteq> 0 then [cogl_translate 0 0 (priv_z (h self))] else []) @
     (if has_clip (h self) then [cogl_clip_set (clip (h self))] else [])"
  by (simp add: clutter_actor_apply_modelview_transform_def clutter_actor_get_parent_def Let_def cogl_def)

text \<open>The leaf of the scene: origin, scale and depth, in this order.\<close>

theorem composer_call_order_witness:
  "clutter_actor_apply_modelview_transform fixed_16_16 scene_store 2 [] =
     [cogl_translate 10 20 0, cogl_scale 0x20000 0x10000, cogl_translate 0 0 3]"
  using composer_call_order [of fixed_16_16 scene_store 2 "[]"]
  by (simp add: scene_store_simps leaf_actor_def clutter_actor_init_def fixed_16_16_def)

text \<open>
  C1 as stated lists the scale among the steps without a condition.  The container
  of the scene has the scale \<open>(CFX_ONE, CFX_ONE)\<close> it was created with: the composer
  calls the translation by its origin and nothing else, no \<open>cogl_scale\<close>, where the
  sequence with the unconditional scale has two calls.
\<close>

theorem composer_scale_counterexample:
  "clutter_actor_apply_modelview_transform fixed_16_16 scene_store 1 [] = [cogl_translate 5 7 0] \<and>
   cogl_scale (scale_x (scene_store 1)) (scale_y (scene_store 1))
     \<notin> set (clutter_actor_apply_modelview_transform fixed_16_16 scene_store 1 []) \<and>
   composer_calls_unguarded_scale fixed_16_16 scene_store 1 =
     [cogl_translate 5 7 0, cogl_scale 0x10000 0x10000] \<and>
   clutter_actor_apply_modelview_transform fixed_16_16 scene_store 1 [] \<noteq>
     composer_calls_unguarded_scale fixed_16_16 scene_store 1"
  by (simp add: clutter_actor_apply_modelview_transform_def clutter_actor_get_parent_def Let_def cogl_def
        composer_calls_unguarded_scale_def
        scene_store_simps group_actor_def clutter_actor_init_def fixed_16_16_def)

text \<open>
  The difference is the call \<open>cogl_scale (CFX_ONE, CFX_ONE)\<close> and nothing else: for a
  renderer on which that call has no effect, the calls of the composer and the
  sequence with the unconditional scale leave the same state.
\<close>

lemma composer_effect_unguarded_scale:
  assumes "\<And>m. effect (cogl_scale (CFX_ONE fx) (CFX_ONE fx)) m = m"
  shows "run_calls effect (clutter_actor_apply_modelview_transform fx h self []) m =
         run_calls effect (composer_calls_unguarded_scale fx h self) m"
proof (cases "scale_x (h self) \<noteq> CFX_ONE fx \<or> scale_y (h self) \<noteq> CFX_ONE fx")
  case True
  then show ?thesis
    by (simp add: clutter_actor_apply_modelview_transform_def clutter_actor_get_parent_def
          Let_def cogl_def composer_calls_unguarded_scale_def)
next
  case False
  then have one: "scale_x (h self) = CFX_ONE fx" "scale_y (h self) = CFX_ONE fx" by simp_all
  show ?thesis
    by (simp add: clutter_actor_apply_modelview_transform_def clutter_actor_get_parent_def
          Let_def cogl_def composer_calls_unguarded_scale_def run_calls_def one assms)
qed

section \<open>The accumulated transform\<close>

lemma clutter_actor_apply_modelview_transform_recursive_chain:
  "ancestry h a up \<Longrightarrow>
   clutter_actor_apply_modelview_transform_recursive fx h a gl =
     Some (gl @ concat (map (\<lambda>n. clutter_actor_apply_modelview_transform fx h n []) (rev up)))"
proof (induction up arbitrary: a gl)
  case Nil
  then show ?case by simp
next
  case (Cons n ps)
  show ?case
  proof (cases ps)
    case Nil
    with Cons.prems have an: "a = n" and par: "parent_actor (h n) = None" by auto
    show ?thesis
      unfolding Nil an
      apply (subst clutter_actor_apply_modelview_transform_recursive.simps)
      apply (simp add: clutter_actor_get_parent_def par)
      apply (rule clutter_actor_apply_modelview_transform_append)
      done
  next
    case (Cons p qs)
    with Cons.prems have an: "a = n" and par: "parent_actor (h n) = Some p"
      and anc: "ancestry h p ps" by auto
    have ih: "clutter_actor_apply_modelview_transform_recursive fx h p gl =
      Some (gl @ concat (map (\<lambda>n. clutter_actor_apply_modelview_transform fx h n []) (rev ps)))"
      by (rule Cons.IH [OF anc])
    show ?thesis
      unfolding an
      apply (subst clutter_actor_apply_modelview_transform_recursive.simps)
      apply (simp add: clutter_actor_get_parent_def par ih)
      apply (subst clutter_actor_apply_modelview_transform_append)
      apply simp
      done
  qed
qed

text \<open>
  C2.  On an actor whose parent links lead to a root, the recursive function returns,
  and the calls it has made are those of the composer of the root, then those of each
  descendant on the way down, and those of the actor itself last.
\<close>

theorem accumulator_root_to_node:
  "ancestry h a up \<Longrightarrow>
   clutter_actor_apply_modelview_transform_recursive fx h a gl =
     Some (gl @ concat (map (\<lambda>n. clutter_actor_apply_modelview_transform fx h n []) (rev up)))"
  by (rule clutter_actor_apply_modelview_transform_recursive_chain)

text \<open>The leaf of the scene: stage, container, leaf.\<close>

theorem accumulator_root_to_node_witness:
  "ancestry scene_store 2 [2, 1, 0] \<and>
   clutter_actor_apply_modelview_transform_recursive fixed_16_16 scene_store 2 [] =
     Some [cogl_translate 5 7 0,
           cogl_translate 10 20 0, cogl_scale 0x20000 0x10000, cogl_translate 0 0 3]"
  using accumulator_root_to_node [OF scene_ancestry, of fixed_16_16 "[]"] scene_ancestry
  by (simp add: clutter_actor_apply_modelview_transform_def clutter_actor_get_parent_def Let_def cogl_def
        scene_store_simps stage_actor_def group_actor_def leaf_actor_def
        clutter_actor_init_def fixed_16_16_def)

section \<open>The four corners\<close>








section \<open>Effective opacity\<close>

lemma opacity_chain_le: "\<forall>x \<in> set xs. x \<le> 255 \<Longrightarrow> opacity_chain xs \<le> 255"
proof (induction xs rule: opacity_chain.induct)
  case 1
  then show ?case by simp
next
  case (2 own)
  then show ?case by simp
next
  case (3 own v va)
  then have a: "opacity_chain (v # va) \<le> 255" and b: "own \<le> 255" by simp_all
  have "opacity_chain (v # va) * own \<le> 255 * 255"
    using a b by (rule mult_le_mono)
  then have "opacity_chain (v # va) * own div 255 \<le> 255 * 255 div 255"
    by (rule div_le_mono)
  then show ?case by simp
qed

lemma unat_opacity_le: "unat (x :: 8 word) \<le> 255"
  using unsigned_less [of x, where 'a = nat] by simp

lemma get_opacity_chain:
  "ancestry h a up \<Longrightarrow>
   clutter_actor_get_opacity h a =
     Some (of_nat (opacity_chain (map (\<lambda>n. unat (opacity (h n))) up)))"
proof (induction up arbitrary: a)
  case Nil
  then show ?case by simp
next
  case (Cons n ps)
  show ?case
  proof (cases ps)
    case Nil
    with Cons.prems have an: "a = n" and par: "parent_actor (h n) = None" by auto
    show ?thesis
      unfolding Nil an
      by (subst clutter_actor_get_opacity.simps) (simp add: par)
  next
    case (Cons p qs)
    with Cons.prems have an: "a = n" and par: "parent_actor (h n) = Some p"
      and anc: "ancestry h p ps" by auto
    let ?c = "opacity_chain (map (\<lambda>n. unat (opacity (h n))) ps)"
    have ih: "clutter_actor_get_opacity h p = Some (of_nat ?c)"
      by (rule Cons.IH [OF anc])
    have le: "?c \<le> 255"
      by (rule opacity_chain_le) (auto simp: unat_opacity_le)
    then have un: "unat (of_nat ?c :: 8 word) = ?c"
      by (simp add: unat_of_nat)
    have ff: "(of_nat ?c :: 8 word) = 0xff \<longleftrightarrow> ?c = 255"
    proof
      assume "(of_nat ?c :: 8 word) = 0xff"
      then have "unat (of_nat ?c :: 8 word) = unat (0xff :: 8 word)" by simp
      then show "?c = 255" using un by simp
    next
      assume "?c = 255"
      then show "(of_nat ?c :: 8 word) = 0xff" by simp
    qed
    have step: "opacity_chain (map (\<lambda>n. unat (opacity (h n))) (n # ps)) =
        ?c * unat (opacity (h n)) div 255"
      unfolding Cons by simp
    show ?thesis
      unfolding an
      apply (subst clutter_actor_get_opacity.simps)
      apply (simp only: par option.case ih Option.bind.simps step un ff)
      apply (auto simp del: opacity_chain.simps)
      done
  qed
qed

text \<open>
  C4.  On an actor whose parent links lead to a root, \<open>clutter_actor_get_opacity\<close>
  returns the multiplicative chain of the stored opacities: the own value at the
  root, and at every level below the effective opacity of the parent times the own
  value, divided by 255.
\<close>

theorem effective_opacity_chain:
  "ancestry h a up \<Longrightarrow>
   \<exists>v. clutter_actor_get_opacity h a = Some v \<and>
       unat v = opacity_chain (map (\<lambda>n. unat (opacity (h n))) up)"
proof -
  assume anc: "ancestry h a up"
  let ?c = "opacity_chain (map (\<lambda>n. unat (opacity (h n))) up)"
  have "?c \<le> 255"
    by (rule opacity_chain_le) (auto simp: unat_opacity_le)
  then have "unat (of_nat ?c :: 8 word) = ?c"
    by (simp add: unat_of_nat)
  with get_opacity_chain [OF anc] show ?thesis by simp
qed

text \<open>Stage 255, container 128, leaf 255: the leaf has the effective opacity 128.\<close>

theorem effective_opacity_chain_witness:
  "ancestry scene_store 2 [2, 1, 0] \<and>
   map (\<lambda>n. unat (opacity (scene_store n))) [2, 1, 0] = [255, 128, 255] \<and>
   clutter_actor_get_opacity scene_store 2 = Some 128"
proof -
  have ops: "map (\<lambda>n. unat (opacity (scene_store n))) [2, 1, 0] = [255, 128, 255]"
    by (simp add: scene_store_simps stage_actor_def group_actor_def leaf_actor_def
          clutter_actor_init_def)
  from effective_opacity_chain [OF scene_ancestry]
  obtain v where v: "clutter_actor_get_opacity scene_store 2 = Some v"
    and u: "unat v = opacity_chain (map (\<lambda>n. unat (opacity (scene_store n))) [2, 1, 0])"
    by blast
  have "unat v = unat (128 :: 8 word)"
    unfolding u ops by simp
  then have "v = 128"
    by (simp only: word_unat_eq_iff)
  with v ops scene_ancestry show ?thesis by simp
qed

section \<open>The pick colour\<close>

lemma ff_mask: "(0xff :: 32 word) = mask 8"
  by (simp add: mask_eq_exp_minus_1)

lemma ident_bits:
  fixes ident :: "32 word"
  assumes "unat ident < 2 ^ k" "bit ident n"
  shows "n < k"
proof -
  have "take_bit k (unat ident) = unat ident"
    using assms(1) by (simp add: take_bit_nat_eq_self_iff)
  moreover have "bit (unat ident) n"
    using assms(2) by (simp add: bit_unsigned_iff)
  ultimately have "bit (take_bit k (unat ident)) n" by simp
  then show "n < k" by (simp add: bit_take_bit_iff)
qed

lemma channel_bits:
  "r \<le> 8 \<Longrightarrow>
   bit (ucast (drop_bit (8 - r)
          (ucast (push_bit (8 - r) ((w :: 32 word) AND drop_bit (8 - r) (mask 8 :: 32 word)))
             :: 8 word)) :: 32 word) n
     \<longleftrightarrow> n < r \<and> bit w n"
  apply (simp add: bit_simps)
  apply auto
  done

lemma decode_bits:
  assumes "r \<le> 8" "g \<le> 8" "b \<le> 8" "n < 32"
  shows "bit (pick_color_decode r g b
         \<lparr>red = ucast (push_bit (8 - r) (drop_bit (g + b) ident AND drop_bit (8 - r) (mask 8 :: 32 word))),
          green = ucast (push_bit (8 - g) (drop_bit b ident AND drop_bit (8 - g) (mask 8 :: 32 word))),
          blue = ucast (push_bit (8 - b) (ident AND drop_bit (8 - b) (mask 8 :: 32 word))),
          alpha = 0xff\<rparr>) n \<longleftrightarrow>
        (g + b \<le> n \<and> n - (g + b) < r \<and> bit ident n) \<or>
        (b \<le> n \<and> n - b < g \<and> bit ident n) \<or>
        (n < b \<and> bit ident n)"
  unfolding pick_color_decode_def
  using assms
  apply (simp only: bit_or_iff bit_push_bit_iff channel_bits ClutterColor.simps
           bit_drop_bit_eq possible_bit_word)
  apply (simp add: bit_simps)
  apply (auto simp add: ac_simps)
  done

text \<open>
  C5.  For bit depths of at most 8 per channel and an identifier that fits into
  \<open>r + g + b\<close> bits, the colour is defined; the red channel holds the top \<open>r\<close> of
  these bits, the green channel the next \<open>g\<close> and the blue channel the low \<open>b\<close>,
  each shifted up to the most significant end of its byte; and decoding the colour
  under the same depths gives the identifier back.
\<close>

theorem pick_color_roundtrip:
  assumes "r \<le> 8" "g \<le> 8" "b \<le> 8" "unat ident < 2 ^ (r + g + b)"
  shows "\<exists>col. pick_color r g b ident = Some col \<and>
           red col = push_bit (8 - r) (ucast (take_bit r (drop_bit (g + b) ident))) \<and>
           green col = push_bit (8 - g) (ucast (take_bit g (drop_bit b ident))) \<and>
           blue col = push_bit (8 - b) (ucast (take_bit b ident)) \<and>
           pick_color_decode r g b col = ident"
proof -
  have gb: "g + b < 32" using assms by simp
  have bits: "\<And>n. bit ident n \<Longrightarrow> n < r + g + b"
    using ident_bits [OF assms(4)] by blast
  have dec: "pick_color_decode r g b
         \<lparr>red = ucast (push_bit (8 - r) (drop_bit (g + b) ident AND drop_bit (8 - r) (mask 8 :: 32 word))),
          green = ucast (push_bit (8 - g) (drop_bit b ident AND drop_bit (8 - g) (mask 8 :: 32 word))),
          blue = ucast (push_bit (8 - b) (ident AND drop_bit (8 - b) (mask 8 :: 32 word))),
          alpha = 0xff\<rparr> = ident"
  proof (rule bit_word_eqI)
    fix n :: nat
    assume "n < LENGTH(32)"
    then have n: "n < 32" by simp
    show "bit (pick_color_decode r g b
         \<lparr>red = ucast (push_bit (8 - r) (drop_bit (g + b) ident AND drop_bit (8 - r) (mask 8 :: 32 word))),
          green = ucast (push_bit (8 - g) (drop_bit b ident AND drop_bit (8 - g) (mask 8 :: 32 word))),
          blue = ucast (push_bit (8 - b) (ident AND drop_bit (8 - b) (mask 8 :: 32 word))),
          alpha = 0xff\<rparr>) n \<longleftrightarrow> bit ident n"
      unfolding decode_bits [OF assms(1,2,3) n]
      using bits [of n] by auto
  qed
  have chan: "\<And>k (w :: 32 word). k \<le> 8 \<Longrightarrow>
      (ucast (push_bit (8 - k) (w AND drop_bit (8 - k) (mask 8 :: 32 word))) :: 8 word) =
      push_bit (8 - k) (ucast (take_bit k w))"
    by (rule bit_word_eqI) (auto simp add: bit_simps)
  show ?thesis
    using assms(1,2,3) gb dec by (simp add: pick_color_def ff_mask chan del: push_bit_and)
qed

text \<open>Depths (8, 8, 8): the identifiers 0, 1, \<open>2 ^ 20\<close> and \<open>2 ^ 24 - 1\<close> come back.\<close>

theorem pick_color_roundtrip_witness:
  "(8 :: nat) \<le> 8 \<and> unat (2 ^ 24 - 1 :: 32 word) < 2 ^ (8 + 8 + 8) \<and>
   map (\<lambda>n. map_option (pick_color_decode 8 8 8) (pick_color 8 8 8 n)) [0, 1, 2 ^ 20, 2 ^ 24 - 1] =
     [Some 0, Some 1, Some (2 ^ 20), Some (2 ^ 24 - 1)]"
  using pick_color_roundtrip [of 8 8 8 0] pick_color_roundtrip [of 8 8 8 1]
    pick_color_roundtrip [of 8 8 8 "2 ^ 20"] pick_color_roundtrip [of 8 8 8 "2 ^ 24 - 1"]
  by auto

section \<open>Event delivery to one actor\<close>

text \<open>
  C6.  In the capture phase \<open>clutter_actor_event\<close> emits the captured-event signal
  and nothing else, and returns its result.  Otherwise it emits the general signal
  first; the signal of the event type follows exactly when the general signal came
  back unhandled and the type has a signal in the table, and the function returns
  what the last emission left.  The table is the one of the \<open>switch\<close>.
\<close>

theorem event_dispatch:
  "clutter_actor_event hs actor ty True u =
     (handled hs actor CAPTURED_EVENT ty u, snd (hs actor CAPTURED_EVENT ty u),
      [(actor, CAPTURED_EVENT)]) \<and>
   clutter_actor_event hs actor ty False u =
     (let u1 = snd (hs actor EVENT ty u) in
      case event_signal_num ty of
        Some s \<Rightarrow>
          if \<not> handled hs actor EVENT ty u
          then (handled hs actor s ty u1, snd (hs actor s ty u1), [(actor, EVENT), (actor, s)])
          else (True, u1, [(actor, EVENT)])
      | None \<Rightarrow> (handled hs actor EVENT ty u, u1, [(actor, EVENT)])) \<and>
   map event_signal_num
     [CLUTTER_BUTTON_PRESS, CLUTTER_BUTTON_RELEASE, CLUTTER_SCROLL, CLUTTER_KEY_PRESS,
      CLUTTER_KEY_RELEASE, CLUTTER_MOTION, CLUTTER_ENTER, CLUTTER_LEAVE] =
     [Some BUTTON_PRESS_EVENT, Some BUTTON_RELEASE_EVENT, Some SCROLL_EVENT,
      Some KEY_PRESS_EVENT, Some KEY_RELEASE_EVENT, Some MOTION_EVENT, Some ENTER_EVENT,
      Some LEAVE_EVENT]"
  by (auto simp add: clutter_actor_event_def g_signal_emit_event_def handled_def Let_def
        split: prod.splits option.splits)

text \<open>A button press on the leaf, a key press on the leaf, and a captured event.\<close>

theorem event_dispatch_witness:
  "clutter_actor_event scene_handlers 2 CLUTTER_BUTTON_PRESS False 0 =
     (True, 2, [(2, EVENT), (2, BUTTON_PRESS_EVENT)]) \<and>
   clutter_actor_event scene_handlers 2 CLUTTER_KEY_PRESS False 0 =
     (False, 2, [(2, EVENT), (2, KEY_PRESS_EVENT)]) \<and>
   clutter_actor_event scene_handlers 2 CLUTTER_DELETE False 0 = (False, 1, [(2, EVENT)]) \<and>
   clutter_actor_event scene_handlers 2 CLUTTER_BUTTON_PRESS True 0 =
     (False, 1, [(2, CAPTURED_EVENT)])"
  using event_dispatch [of scene_handlers 2 CLUTTER_BUTTON_PRESS 0]
    event_dispatch [of scene_handlers 2 CLUTTER_KEY_PRESS 0]
    event_dispatch [of scene_handlers 2 CLUTTER_DELETE 0]
  by (simp add: handled_def scene_handlers_def Let_def)

section \<open>Setting a value that is already stored\<close>










text \<open>
  \<open>clutter_actor_set_x\<close> reads the other coordinate back in whole pixels.  On a box
  whose \<open>y1\<close> is not a whole number of pixels the stored \<open>x\<close> therefore moves the
  actor: \<open>y1\<close> is rewritten to the truncated value and \<open>y\<close> is notified, and a
  visible actor gets a redraw; \<open>clutter_actor_set_y\<close> does the same to \<open>x1\<close>.
\<close>

lemma set_x_truncates_y:
  assumes "CLUTTER_UNITS_FROM_INT fx x = x1 (coords (actors w self))"
    "CLUTTER_UNITS_FROM_INT fx (CLUTTER_UNITS_TO_INT fx (y1 (coords (actors w self)))) \<noteq>
       y1 (coords (actors w self))"
  shows "notifications (clutter_actor_set_x fx self x w) = notifications w @ [(self, ''y'')]"
    and "y1 (coords (actors (clutter_actor_set_x fx self x w) self)) =
           CLUTTER_UNITS_FROM_INT fx (CLUTTER_UNITS_TO_INT fx (y1 (coords (actors w self))))"
    and "CLUTTER_ACTOR_IS_VISIBLE (actors w self) \<and> update_idle w = 0 \<longrightarrow>
           idle_sources (clutter_actor_set_x fx self x w) =
             idle_sources w @ [Suc (source_counter w)]"
  using assms
  by (simp_all add: clutter_actor_set_x_def clutter_actor_get_y_def clutter_actor_set_position_def
        clutter_actor_query_coords_def clutter_actor_request_coords_def
        clutter_actor_real_request_coords_def clutter_actor_queue_redraw_def
        clutter_threads_add_idle_full_def priv_update_def g_object_notify_def Let_def
        CLUTTER_ACTOR_IS_VISIBLE_def)

text \<open>
  On the leaf at (10, 20.5), \<open>clutter_actor_set_x\<close> with the stored 10 moves the leaf
  to (10, 20), notifies \<open>y\<close> and registers the idle source 1.
\<close>

lemma set_x_half_pixel:
  "CLUTTER_UNITS_FROM_INT fixed_16_16 10 = x1 (coords (actors half_pixel_scene 2)) \<and>
   y1 (coords (actors half_pixel_scene 2)) = 0x148000 \<and>
   clutter_actor_get_y fixed_16_16 2 half_pixel_scene = 20 \<and>
   y1 (coords (actors (clutter_actor_set_x fixed_16_16 2 10 half_pixel_scene) 2)) = 0x140000 \<and>
   notifications (clutter_actor_set_x fixed_16_16 2 10 half_pixel_scene) = [(2, ''y'')] \<and>
   idle_sources (clutter_actor_set_x fixed_16_16 2 10 half_pixel_scene) = [1]"
  by (simp add: clutter_actor_set_x_def clutter_actor_get_y_def clutter_actor_set_position_def
        clutter_actor_query_coords_def clutter_actor_request_coords_def
        clutter_actor_real_request_coords_def clutter_actor_queue_redraw_def
        clutter_threads_add_idle_full_def priv_update_def g_object_notify_def Let_def
        CLUTTER_ACTOR_IS_VISIBLE_def half_pixel_scene_def scene_def leaf_actor_def
        clutter_actor_init_def fixed_16_16_simps)




section \<open>One pending repaint\<close>

lemma queue_redraw_pending: "one_pending w \<Longrightarrow> one_pending (clutter_actor_queue_redraw a w)"
  by (simp add: one_pending_def clutter_actor_queue_redraw_def clutter_threads_add_idle_full_def
        Let_def)

lemma priv_update_ctx [simp]:
  "update_idle (priv_update a f w) = update_idle w"
  "idle_sources (priv_update a f w) = idle_sources w"
  "source_counter (priv_update a f w) = source_counter w"
  by (simp_all add: priv_update_def)

lemma notify_ctx [simp]:
  "update_idle (g_object_notify a p w) = update_idle w"
  "idle_sources (g_object_notify a p w) = idle_sources w"
  "actors (g_object_notify a p w) = actors w"
  by (simp_all add: g_object_notify_def)

lemma priv_update_pending [simp]: "one_pending (priv_update a f w) = one_pending w"
  by (simp add: one_pending_def)

lemma notify_pending [simp]: "one_pending (g_object_notify a p w) = one_pending w"
  by (simp add: one_pending_def)

lemma emit_pending [simp]: "one_pending (g_signal_emit a sg w) = one_pending w"
  by (simp add: one_pending_def g_signal_emit_def)

lemma warning_pending [simp]: "one_pending (g_warning m w) = one_pending w"
  by (simp add: one_pending_def g_warning_def)

lemma sort_pending [simp]: "one_pending (clutter_container_sort_depth_order p w) = one_pending w"
  by (simp add: one_pending_def clutter_container_sort_depth_order_def)

lemma hash_pending [simp]: "one_pending (w\<lparr>actor_hash := m\<rparr>) = one_pending w"
  by (simp add: one_pending_def)

lemma realize_pending [simp]: "one_pending (clutter_actor_realize a w) = one_pending w"
  by (simp add: clutter_actor_realize_def)

lemma main_loop_idle_pending: "one_pending w \<Longrightarrow> one_pending (main_loop_idle i w)"
  by (auto simp add: one_pending_def main_loop_idle_def redraw_update_idle_def
        g_source_remove_def clutter_redraw_def split: if_splits)

lemma perform_pending: "one_pending w \<Longrightarrow> one_pending (perform c w)"
proof (cases c)
  case (Queue_redraw a)
  assume "one_pending w"
  then show ?thesis unfolding Queue_redraw by (simp add: queue_redraw_pending)
next
  case (Request_coords a box)
  assume "one_pending w"
  then show ?thesis unfolding Request_coords
    by (simp add: clutter_actor_request_coords_def clutter_actor_real_request_coords_def
          Let_def queue_redraw_pending)
next
  case (Set_scalex a sx sy)
  assume "one_pending w"
  then show ?thesis unfolding Set_scalex
    by (simp add: clutter_actor_set_scalex_def Let_def queue_redraw_pending)
next
  case (Set_opacity a v)
  assume "one_pending w"
  then show ?thesis unfolding Set_opacity
    by (simp add: clutter_actor_set_opacity_def Let_def queue_redraw_pending)
next
  case (Set_depth a d)
  assume "one_pending w"
  then show ?thesis unfolding Set_depth
    by (simp add: clutter_actor_set_depth_def Let_def queue_redraw_pending split: option.split)
next
  case (Set_rotationx a axis angle x y z)
  assume "one_pending w"
  then show ?thesis unfolding Set_rotationx
    by (simp add: clutter_actor_set_rotationx_def Let_def queue_redraw_pending
          split: ClutterRotateAxis.split)
next
  case (Set_clip a xo yo wd ht)
  assume "one_pending w"
  then show ?thesis unfolding Set_clip
    by (simp add: clutter_actor_set_clip_def Let_def)
next
  case (Set_anchor_pointu a ax ay)
  assume "one_pending w"
  then show ?thesis unfolding Set_anchor_pointu
    by (simp add: clutter_actor_set_anchor_pointu_def Let_def)
next
  case (Set_parent a p)
  assume "one_pending w"
  then show ?thesis unfolding Set_parent
    by (simp add: clutter_actor_set_parent_def Let_def queue_redraw_pending split: option.split)
next
  case (Main_loop_idle i)
  assume "one_pending w"
  then show ?thesis unfolding Main_loop_idle by (simp add: main_loop_idle_pending)
qed

lemma perform_all_pending: "one_pending w \<Longrightarrow> one_pending (perform_all cs w)"
  unfolding perform_all_def
  by (induction cs arbitrary: w) (simp_all add: perform_pending)

lemma queue_redraw_all:
  "one_pending w \<Longrightarrow> as \<noteq> [] \<Longrightarrow>
   update_idle (perform_all (map Queue_redraw as) w) \<noteq> 0 \<and>
   repaints (perform_all (map Queue_redraw as) w) = repaints w"
proof (induction as arbitrary: w rule: rev_induct)
  case Nil
  then show ?case by simp
next
  case (snoc a as)
  show ?case
  proof (cases "as = []")
    case True
    then show ?thesis
      by (simp add: perform_all_def clutter_actor_queue_redraw_def
            clutter_threads_add_idle_full_def Let_def)
  next
    case False
    with snoc have "update_idle (perform_all (map Queue_redraw as) w) \<noteq> 0"
      and "repaints (perform_all (map Queue_redraw as) w) = repaints w" by simp_all
    then show ?thesis
      by (simp add: perform_all_def clutter_actor_queue_redraw_def)
  qed
qed

text \<open>
  C8.  Start with no repaint callback pending.  After any sequence of the calls at
  most one idle source is registered.  After any non-empty sequence of
  \<open>clutter_actor_queue_redraw\<close> calls, on whatever actors, exactly one is registered,
  the one the token names, and nothing has been repainted; when the main loop runs
  it, the stage is repainted once, the token is 0 and no source is left.
  \<open>clutter_actor_queue_redraw\<close> changes nothing while the token is not 0, and
  \<open>redraw_update_idle\<close> always leaves the token 0.
\<close>

theorem redraw_coalescing:
  assumes "update_idle w = 0" and "idle_sources w = []"
  shows "length (idle_sources (perform_all cs w)) \<le> 1 \<and>
         (as \<noteq> [] \<longrightarrow>
            (let w1 = perform_all (map Queue_redraw as) w;
                 w2 = main_loop_idle (update_idle w1) w1
             in update_idle w1 \<noteq> 0 \<and> idle_sources w1 = [update_idle w1] \<and>
                repaints w1 = repaints w \<and>
                update_idle w2 = 0 \<and> idle_sources w2 = [] \<and> repaints w2 = Suc (repaints w))) \<and>
         (update_idle w' \<noteq> 0 \<longrightarrow> clutter_actor_queue_redraw a w' = w') \<and>
         update_idle (redraw_update_idle w') = 0"
proof -
  have init: "one_pending w"
    using assms by (simp add: one_pending_def)
  have "one_pending (perform_all cs w)"
    by (rule perform_all_pending [OF init])
  then have first: "length (idle_sources (perform_all cs w)) \<le> 1"
    by (simp add: one_pending_def split: if_splits)
  have second: "let w1 = perform_all (map Queue_redraw as) w;
                 w2 = main_loop_idle (update_idle w1) w1
             in update_idle w1 \<noteq> 0 \<and> idle_sources w1 = [update_idle w1] \<and>
                repaints w1 = repaints w \<and>
                update_idle w2 = 0 \<and> idle_sources w2 = [] \<and> repaints w2 = Suc (repaints w)"
    if ne: "as \<noteq> []"
  proof -
    let ?w1 = "perform_all (map Queue_redraw as) w"
    have tok: "update_idle ?w1 \<noteq> 0" and rp: "repaints ?w1 = repaints w"
      using queue_redraw_all [OF init ne] by simp_all
    have "one_pending ?w1"
      by (rule perform_all_pending [OF init])
    with tok have src: "idle_sources ?w1 = [update_idle ?w1]"
      by (simp add: one_pending_def)
    show ?thesis
      using tok rp src
      by (simp add: Let_def main_loop_idle_def redraw_update_idle_def g_source_remove_def
            clutter_redraw_def)
  qed
  have third: "update_idle w' \<noteq> 0 \<longrightarrow> clutter_actor_queue_redraw a w' = w'"
    by (simp add: clutter_actor_queue_redraw_def)
  have fourth: "update_idle (redraw_update_idle w') = 0"
    by (simp add: redraw_update_idle_def clutter_redraw_def g_source_remove_def)
  from first second third fourth show ?thesis by blast
qed

text \<open>
  Five changes on the three actors of the scene, and five redraw requests: one idle
  source either way, and one repaint when it runs.
\<close>

theorem redraw_coalescing_witness:
  "update_idle scene = 0 \<and> idle_sources scene = [] \<and>
   (let w1 = perform_all [Set_opacity 2 10, Set_depth 1 4, Set_scalex 0 0x8000 0x8000,
                          Set_rotationx 2 CLUTTER_Z_AXIS 0x2D0000 0 0 0, Queue_redraw 1] scene
    in idle_sources w1 = [1] \<and> update_idle w1 = 1 \<and> repaints w1 = 0 \<and>
       idle_sources (main_loop_idle 1 w1) = [] \<and> repaints (main_loop_idle 1 w1) = 1) \<and>
   (let w1 = perform_all (map Queue_redraw [0, 1, 2, 1, 0]) scene
    in idle_sources w1 = [1] \<and> repaints (main_loop_idle (update_idle w1) w1) = 1) \<and>
   update_idle (clutter_actor_queue_redraw 0 scene) \<noteq> 0 \<and>
   clutter_actor_queue_redraw 2 (clutter_actor_queue_redraw 0 scene) =
     clutter_actor_queue_redraw 0 scene"
proof -
  have a: "update_idle scene = 0" and b: "idle_sources scene = []"
    by (simp_all add: scene_simps)
  note t = redraw_coalescing [OF a b,
      of "[Set_opacity 2 10, Set_depth 1 4, Set_scalex 0 0x8000 0x8000,
           Set_rotationx 2 CLUTTER_Z_AXIS 0x2D0000 0 0 0, Queue_redraw 1]"
         "[0, 1, 2, 1, 0]" "clutter_actor_queue_redraw 0 scene" 2]
  show ?thesis
    using t a b
    apply (simp add: Let_def perform_all_def)
    apply (simp add: clutter_actor_set_opacity_def clutter_actor_set_depth_def clutter_actor_set_scalex_def
       clutter_actor_set_rotationx_def clutter_actor_queue_redraw_def clutter_threads_add_idle_full_def
       priv_update_def g_object_notify_def clutter_container_sort_depth_order_def Let_def
       scene_simps scene_store_simps scene_visible CLUTTER_ACTOR_IS_VISIBLE_def
       main_loop_idle_def redraw_update_idle_def g_source_remove_def clutter_redraw_def
       stage_actor_def group_actor_def leaf_actor_def clutter_actor_init_def)
    done
qed

section \<open>A parent that cannot be set\<close>

text \<open>
  C9.  If the actor already has a parent or is a toplevel,
  \<open>clutter_actor_set_parent\<close> returns the state it was given with one diagnostic
  added: the parent link, the table of identifiers and every other part of the state
  are the same.
\<close>

theorem set_parent_refused:
  assumes "parent_actor (actors w self) \<noteq> None \<or> pflag_is_toplevel (actors w self)"
  shows "\<exists>msg. clutter_actor_set_parent self parent w = w\<lparr>diagnostics := diagnostics w @ [msg]\<rparr>"
  using assms by (auto simp add: clutter_actor_set_parent_def g_warning_def)

text \<open>The leaf of the scene has a parent; the stage is a toplevel.\<close>

theorem set_parent_refused_witness:
  "parent_actor (actors scene 2) \<noteq> None \<and> pflag_is_toplevel (actors scene 0) \<and>
   clutter_actor_set_parent 2 0 scene =
     scene\<lparr>diagnostics := [''Cannot set a parent on an actor which has a parent.'']\<rparr> \<and>
   clutter_actor_set_parent 0 1 scene =
     scene\<lparr>diagnostics := [''Cannot set a parent on a toplevel actor'']\<rparr>"
  using set_parent_refused [of scene 2 0] set_parent_refused [of scene 0 1]
  by (simp add: clutter_actor_set_parent_def g_warning_def scene_simps scene_store_simps
        stage_actor_def leaf_actor_def clutter_actor_init_def)

section \<open>The anchor point\<close>

text \<open>
  C10.  \<open>clutter_actor_set_anchor_pointu\<close> and \<open>clutter_actor_set_anchor_point\<close>
  write the two anchor fields of the actor and nothing else: the notifications, the
  token and the idle sources are as before.  On a visible actor with no repaint
  pending the setters of scale and rotation, and those of depth and coordinates when
  the value differs, do register a repaint.
\<close>

theorem anchor_point_frame:
  "clutter_actor_set_anchor_pointu self ax ay w =
     w\<lparr>actors := (actors w)(self := (actors w self)\<lparr>anchor_x := ax, anchor_y := ay\<rparr>)\<rparr> \<and>
   clutter_actor_set_anchor_point fx self px py w =
     w\<lparr>actors := (actors w)(self := (actors w self)
          \<lparr>anchor_x := CLUTTER_UNITS_FROM_DEVICE fx px,
           anchor_y := CLUTTER_UNITS_FROM_DEVICE fx py\<rparr>)\<rparr> \<and>
   notifications (clutter_actor_set_anchor_pointu self ax ay w) = notifications w \<and>
   notifications (clutter_actor_set_anchor_point fx self px py w) = notifications w \<and>
   update_idle (clutter_actor_set_anchor_pointu self ax ay w) = update_idle w \<and>
   update_idle (clutter_actor_set_anchor_point fx self px py w) = update_idle w \<and>
   idle_sources (clutter_actor_set_anchor_pointu self ax ay w) = idle_sources w \<and>
   idle_sources (clutter_actor_set_anchor_point fx self px py w) = idle_sources w \<and>
   (CLUTTER_ACTOR_IS_VISIBLE (actors w self) \<and> update_idle w = 0 \<longrightarrow>
      update_idle (clutter_actor_set_scalex self sx sy w) \<noteq> 0 \<and>
      update_idle (clutter_actor_set_rotationx self axis angle rx ry rz w) \<noteq> 0 \<and>
      (priv_z (actors w self) \<noteq> d \<longrightarrow> update_idle (clutter_actor_set_depth self d w) \<noteq> 0) \<and>
      (x1 (coords (actors w self)) \<noteq> x1 box \<longrightarrow>
         update_idle (clutter_actor_request_coords self box w) \<noteq> 0))"
  by (auto simp add: clutter_actor_set_anchor_pointu_def clutter_actor_set_anchor_point_def
        clutter_actor_set_scalex_def clutter_actor_set_rotationx_def clutter_actor_set_depth_def
        clutter_actor_request_coords_def clutter_actor_real_request_coords_def
        clutter_actor_queue_redraw_def clutter_threads_add_idle_full_def
        clutter_container_sort_depth_order_def
        priv_update_def g_object_notify_def Let_def CLUTTER_ACTOR_IS_VISIBLE_def
        split: ClutterRotateAxis.split option.split)

text \<open>The visible leaf of the scene, anchor moved from (0, 0) to (50, 25) pixels.\<close>

theorem anchor_point_frame_witness:
  "CLUTTER_ACTOR_IS_VISIBLE (actors scene 2) \<and> update_idle scene = 0 \<and>
   anchor_x (actors scene 2) \<noteq> 0x320000 \<and>
   clutter_actor_set_anchor_pointu 2 0x320000 0x190000 scene =
     scene\<lparr>actors := scene_store(2 := leaf_actor\<lparr>anchor_x := 0x320000, anchor_y := 0x190000\<rparr>)\<rparr> \<and>
   clutter_actor_set_anchor_point fixed_16_16 2 50 25 scene =
     scene\<lparr>actors := scene_store(2 := leaf_actor\<lparr>anchor_x := 0x320000, anchor_y := 0x190000\<rparr>)\<rparr> \<and>
   update_idle (clutter_actor_set_anchor_pointu 2 0x320000 0x190000 scene) = 0 \<and>
   notifications (clutter_actor_set_anchor_pointu 2 0x320000 0x190000 scene) = [] \<and>
   update_idle (clutter_actor_set_scalex 2 0x8000 0x8000 scene) \<noteq> 0 \<and>
   update_idle (clutter_actor_set_rotationx 2 CLUTTER_Z_AXIS 0x2D0000 0 0 0 scene) \<noteq> 0 \<and>
   update_idle (clutter_actor_set_depth 2 7 scene) \<noteq> 0 \<and>
   update_idle (clutter_actor_request_coords 2 \<lparr>x1 = 0, y1 = 0, x2 = 0, y2 = 0\<rparr> scene) \<noteq> 0"
  using anchor_point_frame [of 2 "0x320000" "0x190000" scene fixed_16_16 50 25
      "0x8000" "0x8000" CLUTTER_Z_AXIS "0x2D0000" 0 0 0 7 "\<lparr>x1 = 0, y1 = 0, x2 = 0, y2 = 0\<rparr>"]
  by (simp add: scene_simps scene_store_simps CLUTTER_ACTOR_IS_VISIBLE_def leaf_actor_def
        clutter_actor_init_def fixed_16_16_simps)

end
